theory Spec2Isabelle
  imports Main "HOL-Library.Word"
begin

section \<open>EchoWeaver: the dream session controller of \<open>src/App.tsx\<close>\<close>

text \<open>
  The component \<open>App\<close> holds five reactive state variables, an effect that checks the API
  key once at mount, the asynchronous handler \<open>handleWeaveFragment\<close>, and a render function.
  The handler is embedded as the list of effects it performs, in program order: the calls of
  the state setters, the calls of the two external services and the calls of
  \<open>console.error\<close>. The state after a run is obtained by performing the setter calls in
  that order. The two services of \<open>./services/geminiService\<close> are parameters of the model:
  a service maps its arguments to the value its promise resolves with (\<open>Inr\<close>) or to the
  value it rejects with (\<open>Inl\<close>). A promise that never settles is outside the model.
  A setter queues an update; when React publishes the queued updates between two
  \<open>await\<close>s is decided by React, not by this file, and is not modelled: the trace fixes
  the order in which the handler issues its effects, and only the state of a settled run
  is read.
\<close>

subsection \<open>JavaScript strings\<close>

text \<open>
  A JavaScript string is a sequence of 16-bit code units. \<open>utf16\<close> writes an ASCII literal
  of the source as such a sequence.
\<close>

type_synonym jsstring = "16 word list"

definition utf16 :: "string \<Rightarrow> jsstring" where
  "utf16 cs = map of_char cs"

text \<open>
  The code units that \<open>String.prototype.trim\<close> strips: the WhiteSpace and LineTerminator
  productions of ECMAScript (TAB, LF, VT, FF, CR, SP, NBSP, U+1680, U+2000 to U+200A,
  U+2028, U+2029, U+202F, U+205F, U+3000 and U+FEFF).
\<close>

definition isWhiteSpace :: "16 word \<Rightarrow> bool" where
  "isWhiteSpace c =
     (c = 0x0009 \<or> c = 0x000A \<or> c = 0x000B \<or> c = 0x000C \<or> c = 0x000D \<or> c = 0x0020
      \<or> c = 0x00A0 \<or> c = 0x1680 \<or> (0x2000 \<le> c \<and> c \<le> 0x200A)
      \<or> c = 0x2028 \<or> c = 0x2029 \<or> c = 0x202F \<or> c = 0x205F \<or> c = 0x3000 \<or> c = 0xFEFF)"

definition trim :: "jsstring \<Rightarrow> jsstring" where
  "trim s = rev (dropWhile isWhiteSpace (rev (dropWhile isWhiteSpace s)))"

text \<open>Truthiness of a string in a condition (\<open>!s\<close>, \<open>s && ...\<close>): the empty string is falsy.\<close>

definition truthy :: "jsstring \<Rightarrow> bool" where
  "truthy s = (s \<noteq> [])"

subsection \<open>State\<close>

text \<open>
  \<open>DreamState\<close> (declared in \<open>./types\<close>, used as \<open>{narrative: string, imageUrl: null | string}\<close>)
  and the five \<open>useState\<close> variables of \<open>App\<close> (lines 12 to 19).
\<close>

record DreamState =
  narrative :: jsstring
  imageUrl :: "jsstring option"

record App =
  dreamState :: DreamState
  isLoading :: bool
  error :: "jsstring option"
  apiKeyOk :: bool
  showWelcome :: bool

definition initialApp :: App where
  "initialApp =
     \<lparr>dreamState = \<lparr>narrative = [], imageUrl = None\<rparr>,
      isLoading = False, error = None, apiKeyOk = False, showWelcome = True\<rparr>"

subsection \<open>Effects\<close>

text \<open>
  A value caught by \<open>catch\<close>: an instance of \<open>Error\<close> with its \<open>message\<close>, or any other value.
\<close>

datatype thrown = ErrorInstance jsstring | OtherValue

datatype action =
    SetDreamState_narrative jsstring
  | SetDreamState_imageUrl jsstring
  | SetIsLoading bool
  | SetError "jsstring option"
  | SetApiKeyOk bool
  | SetShowWelcome bool
  | Call_weaveNarrative jsstring jsstring
  | Call_generateDreamImage jsstring
  | Console_error jsstring thrown

text \<open>
  The setters: \<open>setDreamState\<close> is called with an updater that copies the previous state
  and replaces one field (lines 52 and 58); the others replace the variable.
\<close>

fun perform :: "action \<Rightarrow> App \<Rightarrow> App" where
  "perform (SetDreamState_narrative n) s = s\<lparr>dreamState := (dreamState s)\<lparr>narrative := n\<rparr>\<rparr>"
| "perform (SetDreamState_imageUrl u) s = s\<lparr>dreamState := (dreamState s)\<lparr>imageUrl := Some u\<rparr>\<rparr>"
| "perform (SetIsLoading b) s = s\<lparr>isLoading := b\<rparr>"
| "perform (SetError e) s = s\<lparr>error := e\<rparr>"
| "perform (SetApiKeyOk b) s = s\<lparr>apiKeyOk := b\<rparr>"
| "perform (SetShowWelcome b) s = s\<lparr>showWelcome := b\<rparr>"
| "perform (Call_weaveNarrative n f) s = s"
| "perform (Call_generateDreamImage p) s = s"
| "perform (Console_error l e) s = s"

definition run :: "action list \<Rightarrow> App \<Rightarrow> App" where
  "run as s = fold perform as s"

subsection \<open>The mount effect (lines 21 to 30)\<close>

definition checkApiKey :: "jsstring option \<Rightarrow> action list" where
  "checkApiKey API_KEY =
     (if (case API_KEY of None \<Rightarrow> False | Some k \<Rightarrow> truthy k \<and> trim k \<noteq> [])
      then [SetApiKeyOk True]
      else [SetError (Some (utf16
              ''API Key not configured. Please set the API_KEY environment variable.'')),
            SetApiKeyOk False])"

subsection \<open>The handler (lines 32 to 72)\<close>

type_synonym narrativeService = "jsstring \<Rightarrow> jsstring \<Rightarrow> thrown + jsstring"
type_synonym imageService = "jsstring \<Rightarrow> thrown + jsstring"

text \<open>\<open>e instanceof Error ? e.message : fallback\<close> (lines 61 and 68).\<close>

definition errorMessage :: "thrown \<Rightarrow> jsstring \<Rightarrow> jsstring" where
  "errorMessage e fallback = (case e of ErrorInstance m \<Rightarrow> m | OtherValue \<Rightarrow> fallback)"

text \<open>The inner \<open>try\<close>/\<open>catch\<close> (lines 56 to 64).\<close>

definition imageStage :: "imageService \<Rightarrow> jsstring \<Rightarrow> action list" where
  "imageStage generateDreamImage imagePromptSegment =
     Call_generateDreamImage imagePromptSegment #
     (case generateDreamImage imagePromptSegment of
        Inr base64Image \<Rightarrow>
          [SetDreamState_imageUrl (utf16 ''data:image/png;base64,'' @ base64Image)]
      | Inl imgError \<Rightarrow>
          [Console_error (utf16 ''Image generation error:'') imgError,
           SetError (Some (errorMessage imgError
              (utf16 ''Image generation failed. The dream's vision flickers.'')))])"

text \<open>
  The outer \<open>try\<close>/\<open>catch\<close> (lines 38 to 68). \<open>dreamState.narrative\<close> is the value the
  handler closed over, the narrative of the state it was created from.
\<close>

definition narrativeStage ::
  "narrativeService \<Rightarrow> imageService \<Rightarrow> App \<Rightarrow> jsstring \<Rightarrow> action list" where
  "narrativeStage weaveNarrative generateDreamImage s fragment =
     Call_weaveNarrative (narrative (dreamState s)) fragment #
     (case weaveNarrative (narrative (dreamState s)) fragment of
        Inr narrativeResponse \<Rightarrow>
          (let (newFullNarrative, imagePromptSegment) =
                 (if \<not> truthy (narrative (dreamState s))
                  then (narrativeResponse, narrativeResponse)
                  else (narrative (dreamState s) @ [0x000A, 0x000A] @ narrativeResponse,
                        narrativeResponse))
           in [SetDreamState_narrative newFullNarrative, SetShowWelcome False]
              @ imageStage generateDreamImage imagePromptSegment)
      | Inl narrativeError \<Rightarrow>
          [Console_error (utf16 ''Narrative weaving error:'') narrativeError,
           SetError (Some (errorMessage narrativeError
              (utf16 ''Narrative weaving failed. The dream's thread is lost.'')))])"

text \<open>The whole handler: the guard, the two setters, the \<open>try\<close> and its \<open>finally\<close>.\<close>

definition handleWeaveFragment ::
  "narrativeService \<Rightarrow> imageService \<Rightarrow> App \<Rightarrow> jsstring \<Rightarrow> action list" where
  "handleWeaveFragment weaveNarrative generateDreamImage s fragment =
     (if \<not> apiKeyOk s \<or> \<not> truthy (trim fragment) then []
      else [SetIsLoading True, SetError None]
           @ narrativeStage weaveNarrative generateDreamImage s fragment
           @ [SetIsLoading False])"

text \<open>One submission, from the state the handler was created from to the settled state.\<close>

definition submitFragment ::
  "narrativeService \<Rightarrow> imageService \<Rightarrow> jsstring \<Rightarrow> App \<Rightarrow> App" where
  "submitFragment weaveNarrative generateDreamImage fragment s =
     run (handleWeaveFragment weaveNarrative generateDreamImage s fragment) s"

subsection \<open>Successive submissions\<close>



subsection \<open>Observing a run\<close>

fun isNarrativeCall :: "action \<Rightarrow> bool" where
  "isNarrativeCall (Call_weaveNarrative n f) = True"
| "isNarrativeCall a = False"

fun isImageCall :: "action \<Rightarrow> bool" where
  "isImageCall (Call_generateDreamImage p) = True"
| "isImageCall a = False"

definition serviceCalls :: "action list \<Rightarrow> action list" where
  "serviceCalls as = filter (\<lambda>a. isNarrativeCall a \<or> isImageCall a) as"


subsection \<open>The render function (lines 75 to 120)\<close>




subsection \<open>The input control\<close>




subsection \<open>Sample inputs\<close>

text \<open>A configured session before the first submission, and services with a fixed outcome.\<close>

definition readyApp :: App where
  "readyApp = initialApp\<lparr>apiKeyOk := True\<rparr>"

definition narrativeResolves :: "jsstring \<Rightarrow> narrativeService" where
  "narrativeResolves segment existingNarrative fragment = Inr segment"

definition narrativeRejects :: "thrown \<Rightarrow> narrativeService" where
  "narrativeRejects e existingNarrative fragment = Inl e"

definition imageResolves :: "jsstring \<Rightarrow> imageService" where
  "imageResolves base64Image prompt = Inr base64Image"

definition imageRejects :: "thrown \<Rightarrow> imageService" where
  "imageRejects e prompt = Inl e"

definition blockedApp :: App where
  "blockedApp = run (checkApiKey None) initialApp"

definition fragmentDoor :: jsstring where
  "fragmentDoor = utf16 ''A door opens.''"

definition fragmentPadded :: jsstring where
  "fragmentPadded = utf16 ''  I step through. ''"

definition fragmentBlank :: jsstring where
  "fragmentBlank = [0x0020, 0x0009, 0x000A, 0x00A0]"

definition segmentFog :: jsstring where
  "segmentFog = utf16 ''A door opens into fog.''"

definition segmentStep :: jsstring where
  "segmentStep = utf16 ''You step through.''"

definition activeApp :: App where
  "activeApp =
     \<lparr>dreamState = \<lparr>narrative = segmentFog, imageUrl = Some (utf16 ''data:image/png;base64,AAAA'')\<rparr>,
      isLoading = False, error = None, apiKeyOk = True, showWelcome = False\<rparr>"



section \<open>Properties\<close>

subsection \<open>Auxiliary facts\<close>

lemma handle_guard_fails:
  "\<not> apiKeyOk s \<or> trim fragment = [] \<Longrightarrow> handleWeaveFragment w g s fragment = []"
  by (simp add: handleWeaveFragment_def truthy_def)

lemma handle_guard_passes:
  "apiKeyOk s \<Longrightarrow> trim fragment \<noteq> [] \<Longrightarrow>
   handleWeaveFragment w g s fragment =
     [SetIsLoading True, SetError None] @ narrativeStage w g s fragment @ [SetIsLoading False]"
  by (simp add: handleWeaveFragment_def truthy_def)

lemma narrativeStage_rejected:
  "w (narrative (dreamState s)) fragment = Inl e \<Longrightarrow>
   narrativeStage w g s fragment =
     [Call_weaveNarrative (narrative (dreamState s)) fragment,
      Console_error (utf16 ''Narrative weaving error:'') e,
      SetError (Some (errorMessage e
        (utf16 ''Narrative weaving failed. The dream's thread is lost.'')))]"
  by (simp add: narrativeStage_def)

lemma narrativeStage_resolved:
  "w (narrative (dreamState s)) fragment = Inr S \<Longrightarrow>
   narrativeStage w g s fragment =
     [Call_weaveNarrative (narrative (dreamState s)) fragment,
      SetDreamState_narrative
        (if narrative (dreamState s) = [] then S
         else narrative (dreamState s) @ [0x000A, 0x000A] @ S),
      SetShowWelcome False] @ imageStage g S"
  by (simp add: narrativeStage_def truthy_def)

lemma imageStage_rejected:
  "g p = Inl e \<Longrightarrow>
   imageStage g p =
     [Call_generateDreamImage p,
      Console_error (utf16 ''Image generation error:'') e,
      SetError (Some (errorMessage e
        (utf16 ''Image generation failed. The dream's vision flickers.'')))]"
  by (simp add: imageStage_def)

lemma imageStage_resolved:
  "g p = Inr b \<Longrightarrow>
   imageStage g p =
     [Call_generateDreamImage p,
      SetDreamState_imageUrl (utf16 ''data:image/png;base64,'' @ b)]"
  by (simp add: imageStage_def)

lemma trim_fragmentDoor: "trim fragmentDoor \<noteq> []"
  by (simp add: fragmentDoor_def utf16_def trim_def isWhiteSpace_def)

lemma trim_fragmentPadded: "trim fragmentPadded = utf16 ''I step through.''"
  by (simp add: fragmentPadded_def utf16_def trim_def isWhiteSpace_def)

lemma trim_fragmentBlank: "trim fragmentBlank = []"
  by (simp add: fragmentBlank_def trim_def isWhiteSpace_def)

text \<open>The settled state on each of the three paths through the \<open>try\<close>.\<close>

lemma settled_narrative_rejected:
  assumes "apiKeyOk s" "trim fragment \<noteq> []" "w (narrative (dreamState s)) fragment = Inl e"
  shows "submitFragment w g fragment s =
     s\<lparr>isLoading := False,
       error := Some (errorMessage e
         (utf16 ''Narrative weaving failed. The dream's thread is lost.''))\<rparr>"
  using assms
  by (simp add: submitFragment_def run_def handle_guard_passes narrativeStage_rejected)

lemma settled_image_rejected:
  assumes "apiKeyOk s" "trim fragment \<noteq> []" "w (narrative (dreamState s)) fragment = Inr S"
    "g S = Inl e"
  shows "submitFragment w g fragment s =
     s\<lparr>dreamState := (dreamState s)\<lparr>narrative :=
          (if narrative (dreamState s) = [] then S
           else narrative (dreamState s) @ [0x000A, 0x000A] @ S)\<rparr>,
       showWelcome := False,
       isLoading := False,
       error := Some (errorMessage e
         (utf16 ''Image generation failed. The dream's vision flickers.''))\<rparr>"
  using assms
  by (simp add: submitFragment_def run_def handle_guard_passes narrativeStage_resolved
      imageStage_rejected)

lemma settled_image_resolved:
  assumes "apiKeyOk s" "trim fragment \<noteq> []" "w (narrative (dreamState s)) fragment = Inr S"
    "g S = Inr b"
  shows "submitFragment w g fragment s =
     s\<lparr>dreamState := \<lparr>narrative =
          (if narrative (dreamState s) = [] then S
           else narrative (dreamState s) @ [0x000A, 0x000A] @ S),
          imageUrl = Some (utf16 ''data:image/png;base64,'' @ b)\<rparr>,
       showWelcome := False,
       isLoading := False,
       error := None\<rparr>"
  using assms
  by (simp add: submitFragment_def run_def handle_guard_passes narrativeStage_resolved
      imageStage_resolved)

lemma settled_guard_fails:
  "\<not> apiKeyOk s \<or> trim fragment = [] \<Longrightarrow> submitFragment w g fragment s = s"
  by (simp add: submitFragment_def run_def handle_guard_fails)

subsection \<open>The guard\<close>

text \<open>
  Claim C8. When the API key is missing (\<open>apiKeyOk\<close> is false, the blocked session) or the
  fragment is empty after trimming, the handler returns at once: it performs no effect at
  all, so no service is invoked, and the state, with its narrative, image, error and
  loading flag, is the state it started from.
\<close>

theorem guard_noop:
  assumes "\<not> apiKeyOk s \<or> trim fragment = []"
  shows "handleWeaveFragment w g s fragment = []
       \<and> serviceCalls (handleWeaveFragment w g s fragment) = []
       \<and> submitFragment w g fragment s = s"
  using assms by (simp add: handle_guard_fails settled_guard_fails serviceCalls_def)

theorem guard_noop_witness:
  "\<not> apiKeyOk blockedApp
   \<and> submitFragment (narrativeResolves segmentFog) (imageResolves [0x0041]) fragmentDoor blockedApp
       = blockedApp
   \<and> handleWeaveFragment (narrativeResolves segmentFog) (imageResolves [0x0041]) blockedApp
       fragmentDoor = []
   \<and> trim fragmentBlank = []
   \<and> submitFragment (narrativeResolves segmentFog) (imageResolves [0x0041]) fragmentBlank activeApp
       = activeApp
   \<and> serviceCalls (handleWeaveFragment (narrativeResolves segmentFog) (imageResolves [0x0041])
        activeApp fragmentBlank) = []"
proof -
  have blocked: "\<not> apiKeyOk blockedApp"
    by (simp add: blockedApp_def checkApiKey_def run_def initialApp_def)
  have blank: "trim fragmentBlank = []"
    by (rule trim_fragmentBlank)
  from blocked have h1: "\<not> apiKeyOk blockedApp \<or> trim fragmentDoor = []" by simp
  from blank have h2: "\<not> apiKeyOk activeApp \<or> trim fragmentBlank = []" by simp
  show ?thesis
    using blocked blank
      guard_noop [OF h1, of "narrativeResolves segmentFog" "imageResolves [0x0041]"]
      guard_noop [OF h2, of "narrativeResolves segmentFog" "imageResolves [0x0041]"]
    by (simp add: serviceCalls_def)
qed

subsection \<open>The narrative after a successful weave\<close>

text \<open>
  Claim C2. From a state with a non-empty narrative \<open>N\<close>, when the guard passes and the
  Narrative Service resolves with the segment \<open>S\<close>, the narrative of the settled state is
  \<open>N\<close>, two line feeds, \<open>S\<close>, and the Image Service is called once, with \<open>S\<close> alone.
\<close>

theorem append_law:
  assumes "apiKeyOk s" and "trim fragment \<noteq> []"
    and "narrative (dreamState s) \<noteq> []"
    and "w (narrative (dreamState s)) fragment = Inr S"
  shows "narrative (dreamState (submitFragment w g fragment s))
           = narrative (dreamState s) @ [0x000A, 0x000A] @ S
       \<and> filter isImageCall (handleWeaveFragment w g s fragment) = [Call_generateDreamImage S]"
proof (cases "g S")
  case (Inl e)
  with assms show ?thesis
    by (simp add: settled_image_rejected handle_guard_passes narrativeStage_resolved
        imageStage_rejected)
next
  case (Inr b)
  with assms show ?thesis
    by (simp add: settled_image_resolved handle_guard_passes narrativeStage_resolved
        imageStage_resolved)
qed

theorem append_law_witness:
  "apiKeyOk activeApp \<and> trim fragmentPadded \<noteq> [] \<and> narrative (dreamState activeApp) \<noteq> []
   \<and> narrative (dreamState (submitFragment (narrativeResolves segmentStep)
        (imageRejects OtherValue) fragmentPadded activeApp))
       = utf16 ''A door opens into fog.'' @ [0x000A, 0x000A] @ utf16 ''You step through.''
   \<and> filter isImageCall (handleWeaveFragment (narrativeResolves segmentStep)
        (imageRejects OtherValue) activeApp fragmentPadded)
       = [Call_generateDreamImage (utf16 ''You step through.'')]"
proof -
  have h1: "apiKeyOk activeApp" by (simp add: activeApp_def)
  have h2: "trim fragmentPadded \<noteq> []" by (simp add: trim_fragmentPadded utf16_def)
  have h3: "narrative (dreamState activeApp) \<noteq> []"
    by (simp add: activeApp_def segmentFog_def utf16_def)
  have h4: "narrativeResolves segmentStep (narrative (dreamState activeApp)) fragmentPadded
              = Inr segmentStep"
    by (simp add: narrativeResolves_def)
  show ?thesis
    using h1 h2 h3 append_law [where w = "narrativeResolves segmentStep" and g = "imageRejects OtherValue"
        and s = activeApp and fragment = fragmentPadded and S = segmentStep, OF h1 h2 h3 h4]
    by (simp add: activeApp_def segmentFog_def segmentStep_def)
qed

text \<open>
  Claim C3. From a state with an empty narrative, when the guard passes and the Narrative
  Service resolves with the segment \<open>S\<close>, the narrative of the settled state is \<open>S\<close>
  itself, with no separator before it, and the Image Service is called once, with \<open>S\<close>.
\<close>

theorem first_fragment_law:
  assumes "apiKeyOk s" and "trim fragment \<noteq> []"
    and "narrative (dreamState s) = []"
    and "w (narrative (dreamState s)) fragment = Inr S"
  shows "narrative (dreamState (submitFragment w g fragment s)) = S
       \<and> filter isImageCall (handleWeaveFragment w g s fragment) = [Call_generateDreamImage S]"
proof (cases "g S")
  case (Inl e)
  with assms show ?thesis
    by (simp add: settled_image_rejected handle_guard_passes narrativeStage_resolved
        imageStage_rejected)
next
  case (Inr b)
  with assms show ?thesis
    by (simp add: settled_image_resolved handle_guard_passes narrativeStage_resolved
        imageStage_resolved)
qed

theorem first_fragment_law_witness:
  "apiKeyOk readyApp \<and> trim fragmentDoor \<noteq> [] \<and> narrative (dreamState readyApp) = []
   \<and> narrative (dreamState (submitFragment (narrativeResolves segmentFog)
        (imageResolves [0x0041]) fragmentDoor readyApp)) = utf16 ''A door opens into fog.''
   \<and> filter isImageCall (handleWeaveFragment (narrativeResolves segmentFog)
        (imageResolves [0x0041]) readyApp fragmentDoor)
       = [Call_generateDreamImage (utf16 ''A door opens into fog.'')]"
proof -
  have h1: "apiKeyOk readyApp" by (simp add: readyApp_def)
  have h2: "trim fragmentDoor \<noteq> []" by (rule trim_fragmentDoor)
  have h3: "narrative (dreamState readyApp) = []" by (simp add: readyApp_def initialApp_def)
  have h4: "narrativeResolves segmentFog (narrative (dreamState readyApp)) fragmentDoor
              = Inr segmentFog"
    by (simp add: narrativeResolves_def)
  show ?thesis
    using h1 h2 h3
      first_fragment_law [where w = "narrativeResolves segmentFog"
        and g = "imageResolves [0x0041]" and s = readyApp and fragment = fragmentDoor
        and S = segmentFog, OF h1 h2 h3 h4]
    by (simp add: segmentFog_def)
qed

subsection \<open>Failures\<close>

text \<open>
  Claim C4. When the guard passes and the Narrative Service rejects, the settled state has
  the narrative and the image of the state before the call, the Image Service is not
  called, the error is set (to the message of the rejection or to the fallback phrase) and
  the loading flag is false.
\<close>

theorem narrative_failure_keeps_data:
  assumes "apiKeyOk s" and "trim fragment \<noteq> []"
    and "w (narrative (dreamState s)) fragment = Inl e"
  shows "narrative (dreamState (submitFragment w g fragment s)) = narrative (dreamState s)
       \<and> imageUrl (dreamState (submitFragment w g fragment s)) = imageUrl (dreamState s)
       \<and> filter isImageCall (handleWeaveFragment w g s fragment) = []
       \<and> error (submitFragment w g fragment s)
           = Some (errorMessage e (utf16 ''Narrative weaving failed. The dream's thread is lost.''))
       \<and> \<not> isLoading (submitFragment w g fragment s)"
  using assms
  by (simp add: settled_narrative_rejected handle_guard_passes narrativeStage_rejected)

theorem narrative_failure_keeps_data_witness:
  "apiKeyOk activeApp \<and> trim fragmentDoor \<noteq> []
   \<and> narrative (dreamState (submitFragment (narrativeRejects (ErrorInstance (utf16 ''quota exceeded'')))
        (imageResolves [0x0041]) fragmentDoor activeApp)) = segmentFog
   \<and> imageUrl (dreamState (submitFragment (narrativeRejects (ErrorInstance (utf16 ''quota exceeded'')))
        (imageResolves [0x0041]) fragmentDoor activeApp))
       = Some (utf16 ''data:image/png;base64,AAAA'')
   \<and> filter isImageCall (handleWeaveFragment (narrativeRejects (ErrorInstance (utf16 ''quota exceeded'')))
        (imageResolves [0x0041]) activeApp fragmentDoor) = []
   \<and> error (submitFragment (narrativeRejects (ErrorInstance (utf16 ''quota exceeded'')))
        (imageResolves [0x0041]) fragmentDoor activeApp) = Some (utf16 ''quota exceeded'')
   \<and> \<not> isLoading (submitFragment (narrativeRejects (ErrorInstance (utf16 ''quota exceeded'')))
        (imageResolves [0x0041]) fragmentDoor activeApp)"
proof -
  have h1: "apiKeyOk activeApp" by (simp add: activeApp_def)
  have h2: "trim fragmentDoor \<noteq> []" by (rule trim_fragmentDoor)
  have h3: "narrativeRejects (ErrorInstance (utf16 ''quota exceeded''))
              (narrative (dreamState activeApp)) fragmentDoor
              = Inl (ErrorInstance (utf16 ''quota exceeded''))"
    by (simp add: narrativeRejects_def)
  show ?thesis
    using h1 h2
      narrative_failure_keeps_data [where w = "narrativeRejects (ErrorInstance (utf16 ''quota exceeded''))"
        and g = "imageResolves [0x0041]" and s = activeApp and fragment = fragmentDoor
        and e = "ErrorInstance (utf16 ''quota exceeded'')", OF h1 h2 h3]
    by (simp add: activeApp_def errorMessage_def)
qed

text \<open>
  Claim C5. When the guard passes, the Narrative Service resolves with \<open>S\<close> and the Image
  Service then rejects, the settled state has the updated narrative (the segment, or the
  old narrative, two line feeds and the segment), the image of the state before the call,
  the error set, and the loading flag false.
\<close>

theorem image_failure_keeps_narrative:
  assumes "apiKeyOk s" and "trim fragment \<noteq> []"
    and "w (narrative (dreamState s)) fragment = Inr S"
    and "g S = Inl e"
  shows "narrative (dreamState (submitFragment w g fragment s))
           = (if narrative (dreamState s) = [] then S
              else narrative (dreamState s) @ [0x000A, 0x000A] @ S)
       \<and> imageUrl (dreamState (submitFragment w g fragment s)) = imageUrl (dreamState s)
       \<and> error (submitFragment w g fragment s)
           = Some (errorMessage e (utf16 ''Image generation failed. The dream's vision flickers.''))
       \<and> \<not> isLoading (submitFragment w g fragment s)"
  using assms by (simp add: settled_image_rejected)

theorem image_failure_keeps_narrative_witness:
  "apiKeyOk activeApp \<and> trim fragmentPadded \<noteq> []
   \<and> narrative (dreamState (submitFragment (narrativeResolves segmentStep)
        (imageRejects (ErrorInstance (utf16 ''blocked''))) fragmentPadded activeApp))
       = segmentFog @ [0x000A, 0x000A] @ segmentStep
   \<and> imageUrl (dreamState (submitFragment (narrativeResolves segmentStep)
        (imageRejects (ErrorInstance (utf16 ''blocked''))) fragmentPadded activeApp))
       = Some (utf16 ''data:image/png;base64,AAAA'')
   \<and> error (submitFragment (narrativeResolves segmentStep)
        (imageRejects (ErrorInstance (utf16 ''blocked''))) fragmentPadded activeApp)
       = Some (utf16 ''blocked'')
   \<and> \<not> isLoading (submitFragment (narrativeResolves segmentStep)
        (imageRejects (ErrorInstance (utf16 ''blocked''))) fragmentPadded activeApp)"
proof -
  have h1: "apiKeyOk activeApp" by (simp add: activeApp_def)
  have h2: "trim fragmentPadded \<noteq> []" by (simp add: trim_fragmentPadded utf16_def)
  have h3: "narrativeResolves segmentStep (narrative (dreamState activeApp)) fragmentPadded
              = Inr segmentStep"
    by (simp add: narrativeResolves_def)
  have h4: "imageRejects (ErrorInstance (utf16 ''blocked'')) segmentStep
              = Inl (ErrorInstance (utf16 ''blocked''))"
    by (simp add: imageRejects_def)
  have ne: "segmentFog \<noteq> []" by (simp add: segmentFog_def utf16_def)
  show ?thesis
    using h1 h2 ne
      image_failure_keeps_narrative [where w = "narrativeResolves segmentStep"
        and g = "imageRejects (ErrorInstance (utf16 ''blocked''))" and s = activeApp
        and fragment = fragmentPadded and S = segmentStep
        and e = "ErrorInstance (utf16 ''blocked'')", OF h1 h2 h3 h4]
    by (simp add: activeApp_def errorMessage_def)
qed

subsection \<open>The loading flag\<close>

text \<open>
  Claim C6. On every run that passes the guard, whatever the two services do, the loading
  flag is false in the settled state, and the handler clears it exactly once: the trace
  holds one \<open>setIsLoading(false)\<close>, its last effect (the \<open>finally\<close> block).
\<close>

theorem busy_released_once:
  assumes "apiKeyOk s" and "trim fragment \<noteq> []"
  shows "\<not> isLoading (submitFragment w g fragment s)
       \<and> count_list (handleWeaveFragment w g s fragment) (SetIsLoading False) = 1
       \<and> last (handleWeaveFragment w g s fragment) = SetIsLoading False"
proof (cases "w (narrative (dreamState s)) fragment")
  case (Inl e)
  with assms show ?thesis
    by (simp add: settled_narrative_rejected handle_guard_passes narrativeStage_rejected)
next
  case (Inr S)
  show ?thesis
  proof (cases "g S")
    case (Inl e)
    with assms Inr show ?thesis
      by (simp add: settled_image_rejected handle_guard_passes narrativeStage_resolved
          imageStage_rejected)
  next
    case (Inr b)
    with assms \<open>w (narrative (dreamState s)) fragment = Inr S\<close> show ?thesis
      by (simp add: settled_image_resolved handle_guard_passes narrativeStage_resolved
          imageStage_resolved)
  qed
qed

theorem busy_released_once_witness:
  "apiKeyOk readyApp \<and> trim fragmentDoor \<noteq> []
   \<and> \<not> isLoading (submitFragment (narrativeResolves segmentFog) (imageRejects OtherValue)
          fragmentDoor readyApp)
   \<and> count_list (handleWeaveFragment (narrativeResolves segmentFog) (imageRejects OtherValue)
          readyApp fragmentDoor) (SetIsLoading False) = 1
   \<and> last (handleWeaveFragment (narrativeResolves segmentFog) (imageRejects OtherValue)
          readyApp fragmentDoor) = SetIsLoading False"
proof -
  have h1: "apiKeyOk readyApp" by (simp add: readyApp_def)
  have h2: "trim fragmentDoor \<noteq> []" by (rule trim_fragmentDoor)
  show ?thesis
    using h1 h2
      busy_released_once [OF h1 h2, of "narrativeResolves segmentFog" "imageRejects OtherValue"]
    by simp
qed

subsection \<open>What the Narrative Service receives\<close>

text \<open>
  Claim C10. On a run that passes the guard the Narrative Service is called once, with the
  narrative of the state and the fragment as submitted: the trimmed fragment decides the
  guard only, and surrounding white space reaches the service.
\<close>

theorem fragment_forwarded_raw:
  assumes "apiKeyOk s" and "trim fragment \<noteq> []"
  shows "filter isNarrativeCall (handleWeaveFragment w g s fragment)
           = [Call_weaveNarrative (narrative (dreamState s)) fragment]"
proof (cases "w (narrative (dreamState s)) fragment")
  case (Inl e)
  with assms show ?thesis
    by (simp add: handle_guard_passes narrativeStage_rejected)
next
  case (Inr S)
  with assms show ?thesis
    by (cases "g S")
       (simp_all add: handle_guard_passes narrativeStage_resolved imageStage_rejected
          imageStage_resolved)
qed

theorem fragment_forwarded_raw_witness:
  "apiKeyOk activeApp \<and> trim fragmentPadded \<noteq> [] \<and> trim fragmentPadded \<noteq> fragmentPadded
   \<and> filter isNarrativeCall (handleWeaveFragment (narrativeResolves segmentStep)
        (imageResolves [0x0041]) activeApp fragmentPadded)
       = [Call_weaveNarrative (utf16 ''A door opens into fog.'') (utf16 ''  I step through. '')]"
proof -
  have h1: "apiKeyOk activeApp" by (simp add: activeApp_def)
  have h2: "trim fragmentPadded \<noteq> []" by (simp add: trim_fragmentPadded utf16_def)
  have h3: "trim fragmentPadded \<noteq> fragmentPadded"
    unfolding trim_fragmentPadded by (simp add: fragmentPadded_def utf16_def)
  show ?thesis
    using h1 h2 h3
      fragment_forwarded_raw [OF h1 h2, of "narrativeResolves segmentStep" "imageResolves [0x0041]"]
    by (simp add: activeApp_def segmentFog_def fragmentPadded_def)
qed

subsection \<open>Submitting while a submission is in flight\<close>

text \<open>
  The guard of the handler (line 33) reads the API key and the fragment only: the loading
  flag of the state the handler was created from does not enter its trace.
\<close>

lemma handler_does_not_read_isLoading:
  "handleWeaveFragment w g (s\<lparr>isLoading := b\<rparr>) fragment = handleWeaveFragment w g s fragment"
  by (simp add: handleWeaveFragment_def narrativeStage_def cong: sum.case_cong if_cong)




subsection \<open>The fallback phrases\<close>

text \<open>
  Claim C7, as stated, fails. When a service rejects with a value that is not an \<open>Error\<close>,
  the error is the fallback phrase of the source, which is longer than the phrase of the
  claim at either stage.
\<close>

theorem fallback_phrase_counterexample:
  "narrativeRejects OtherValue (narrative (dreamState readyApp)) fragmentDoor = Inl OtherValue
   \<and> error (submitFragment (narrativeRejects OtherValue) (imageResolves [0x0041]) fragmentDoor
        readyApp) \<noteq> Some (utf16 ''Narrative weaving failed.'')
   \<and> imageRejects OtherValue segmentFog = Inl OtherValue
   \<and> error (submitFragment (narrativeResolves segmentFog) (imageRejects OtherValue) fragmentDoor
        readyApp) \<noteq> Some (utf16 ''Image generation failed.'')"
proof -
  have h1: "apiKeyOk readyApp" by (simp add: readyApp_def)
  have n: "narrativeRejects OtherValue (narrative (dreamState readyApp)) fragmentDoor
             = Inl OtherValue"
    by (simp add: narrativeRejects_def)
  have r: "narrativeResolves segmentFog (narrative (dreamState readyApp)) fragmentDoor
             = Inr segmentFog"
    by (simp add: narrativeResolves_def)
  have i: "imageRejects OtherValue segmentFog = Inl OtherValue"
    by (simp add: imageRejects_def)
  show ?thesis
    using n i
    by (simp add: settled_narrative_rejected [where w = "narrativeRejects OtherValue"
          and e = OtherValue, OF h1 trim_fragmentDoor n]
        settled_image_rejected [where w = "narrativeResolves segmentFog"
          and g = "imageRejects OtherValue" and S = segmentFog and e = OtherValue,
          OF h1 trim_fragmentDoor r i]
        errorMessage_def utf16_def)
qed

text \<open>
  Claim C7, amended. On a run that passes the guard, when a service rejects with a value
  that is not an \<open>Error\<close> (so that it provides no message), the error is exactly
  \<open>Narrative weaving failed. The dream's thread is lost.\<close> at the narrative stage and
  exactly \<open>Image generation failed. The dream's vision flickers.\<close> at the image stage.
\<close>

theorem fallback_phrases:
  assumes "apiKeyOk s" and "trim fragment \<noteq> []"
  shows "(w (narrative (dreamState s)) fragment = Inl OtherValue \<longrightarrow>
            error (submitFragment w g fragment s)
              = Some (utf16 ''Narrative weaving failed. The dream's thread is lost.''))
       \<and> (w (narrative (dreamState s)) fragment = Inr S \<and> g S = Inl OtherValue \<longrightarrow>
            error (submitFragment w g fragment s)
              = Some (utf16 ''Image generation failed. The dream's vision flickers.''))"
  using assms
  by (simp add: settled_narrative_rejected settled_image_rejected errorMessage_def)

theorem fallback_phrases_witness:
  "apiKeyOk readyApp \<and> trim fragmentDoor \<noteq> []
   \<and> narrativeRejects OtherValue (narrative (dreamState readyApp)) fragmentDoor = Inl OtherValue
   \<and> error (submitFragment (narrativeRejects OtherValue) (imageResolves [0x0041]) fragmentDoor
        readyApp) = Some (utf16 ''Narrative weaving failed. The dream's thread is lost.'')
   \<and> narrativeResolves segmentFog (narrative (dreamState readyApp)) fragmentDoor = Inr segmentFog
   \<and> imageRejects OtherValue segmentFog = Inl OtherValue
   \<and> error (submitFragment (narrativeResolves segmentFog) (imageRejects OtherValue) fragmentDoor
        readyApp) = Some (utf16 ''Image generation failed. The dream's vision flickers.'')"
proof -
  have h1: "apiKeyOk readyApp" by (simp add: readyApp_def)
  have h2: "trim fragmentDoor \<noteq> []" by (rule trim_fragmentDoor)
  have n: "narrativeRejects OtherValue (narrative (dreamState readyApp)) fragmentDoor
             = Inl OtherValue"
    by (simp add: narrativeRejects_def)
  have r: "narrativeResolves segmentFog (narrative (dreamState readyApp)) fragmentDoor
             = Inr segmentFog"
    by (simp add: narrativeResolves_def)
  have i: "imageRejects OtherValue segmentFog = Inl OtherValue"
    by (simp add: imageRejects_def)
  show ?thesis
    using h1 h2 n r i
      fallback_phrases [where w = "narrativeRejects OtherValue" and g = "imageResolves [0x0041]"
        and S = segmentFog, OF h1 h2]
      fallback_phrases [where w = "narrativeResolves segmentFog" and g = "imageRejects OtherValue"
        and S = segmentFog, OF h1 h2]
    by simp
qed

subsection \<open>The welcome screen\<close>










end
